theory Spec2Isabelle
  imports Complex_Main "HOL-Library.AList"
begin

section \<open>JavaScript values\<close>

text \<open>
  The program is TypeScript running on a JavaScript host. Its payloads are decoded JSON,
  so a value is one of the JSON shapes, \<open>undefined\<close> (what reading an absent property
  gives) or an error object (what \<open>catch\<close> binds and the operations hand back under the
  key \<open>error\<close>).

  A JavaScript number is an IEEE 754 binary64 value: \<open>NaN\<close>, an infinity, or a finite
  value, which is a real number. The sign of zero is not modelled.
\<close>

datatype exn = Error string | TypeError string | SyntaxError string

datatype jsnum = NaN | PInf | NInf | Fin real

datatype jsval =
    JUndefined
  | JNull
  | JBool bool
  | JNum jsnum
  | JStr string
  | JErr exn
  | JArr "jsval list"
  | JObj "(string \<times> jsval) list"

subsection \<open>Rounding to binary64\<close>

text \<open>
  The result of \<open>-\<close> and \<open>*\<close> on finite numbers, and the value of a decimal literal, is
  the exact result rounded to the nearest binary64 value, a tie going to the even
  significand, and an infinity when the rounded value does not fit.

  \<open>exponent x\<close> is the binary exponent of \<open>x\<close>, the \<open>e\<close> with \<open>2^e \<le> |x| < 2^(e+1)\<close>, not
  below \<open>-1022\<close> (smaller values are subnormal and share that exponent) and not searched
  for above \<open>1024\<close> (where the value overflows whatever the exponent). A value with
  exponent \<open>e\<close> is rounded to a multiple of \<open>2^(e-52)\<close>.
\<close>

definition pow2 :: "int \<Rightarrow> real" where
  "pow2 e = (if 0 \<le> e then 2 ^ nat e else 1 / 2 ^ nat (- e))"

fun expUp :: "nat \<Rightarrow> int \<Rightarrow> real \<Rightarrow> int" where
  "expUp n e a = (if n = 0 \<or> a < pow2 (e + 1) then e else expUp (n - 1) (e + 1) a)"

fun expDown :: "nat \<Rightarrow> int \<Rightarrow> real \<Rightarrow> int" where
  "expDown n e a = (if n = 0 \<or> pow2 e \<le> a then e else expDown (n - 1) (e - 1) a)"

definition exponent :: "real \<Rightarrow> int" where
  "exponent x = (if 1 \<le> \<bar>x\<bar> then expUp 1024 0 \<bar>x\<bar> else expDown 1022 0 \<bar>x\<bar>)"

definition roundEven :: "real \<Rightarrow> int" where
  "roundEven y =
     (let n = \<lfloor>y\<rfloor> in
      if y - of_int n < 1 / 2 then n
      else if 1 / 2 < y - of_int n then n + 1
      else if even n then n else n + 1)"

definition binary64 :: "real \<Rightarrow> jsnum" where
  "binary64 x =
     (let q = pow2 (exponent x - 52);
          r = of_int (roundEven (x / q)) * q
      in if pow2 1024 \<le> \<bar>r\<bar> then (if 0 < x then PInf else NInf) else Fin r)"

subsection \<open>Operations on numbers\<close>

text \<open>Comparisons are exact; every comparison with \<open>NaN\<close> is false.\<close>

fun num_lt :: "jsnum \<Rightarrow> jsnum \<Rightarrow> bool" where
  "num_lt (Fin a) (Fin b) = (a < b)"
| "num_lt (Fin a) PInf = True"
| "num_lt NInf (Fin b) = True"
| "num_lt NInf PInf = True"
| "num_lt _ _ = False"

definition num_gt :: "jsnum \<Rightarrow> jsnum \<Rightarrow> bool" where
  "num_gt a b = num_lt b a"

fun num_eq :: "jsnum \<Rightarrow> jsnum \<Rightarrow> bool" where
  "num_eq (Fin a) (Fin b) = (a = b)"
| "num_eq PInf PInf = True"
| "num_eq NInf NInf = True"
| "num_eq _ _ = False"

definition num_le :: "jsnum \<Rightarrow> jsnum \<Rightarrow> bool" where
  "num_le a b = (num_lt a b \<or> num_eq a b)"

fun num_sub :: "jsnum \<Rightarrow> jsnum \<Rightarrow> jsnum" where
  "num_sub (Fin a) (Fin b) = binary64 (a - b)"
| "num_sub NaN _ = NaN"
| "num_sub _ NaN = NaN"
| "num_sub PInf PInf = NaN"
| "num_sub NInf NInf = NaN"
| "num_sub PInf _ = PInf"
| "num_sub NInf _ = NInf"
| "num_sub (Fin a) PInf = NInf"
| "num_sub (Fin a) NInf = PInf"

text \<open>The product of an infinity and a finite number: \<open>NaN\<close> when that number is zero.\<close>

definition infTimes :: "jsnum \<Rightarrow> real \<Rightarrow> jsnum" where
  "infTimes i a = (if a = 0 then NaN else if 0 < a then i
                   else (if i = PInf then NInf else PInf))"

fun num_mul :: "jsnum \<Rightarrow> jsnum \<Rightarrow> jsnum" where
  "num_mul (Fin a) (Fin b) = binary64 (a * b)"
| "num_mul NaN _ = NaN"
| "num_mul _ NaN = NaN"
| "num_mul PInf (Fin b) = infTimes PInf b"
| "num_mul NInf (Fin b) = infTimes NInf b"
| "num_mul (Fin a) PInf = infTimes PInf a"
| "num_mul (Fin a) NInf = infTimes NInf a"
| "num_mul PInf PInf = PInf"
| "num_mul NInf NInf = PInf"
| "num_mul PInf NInf = NInf"
| "num_mul NInf PInf = NInf"

text \<open>
  Division by a positive constant (the program divides by 60 only). The quotient of a
  finite number is kept exact; the binary64 value nearest to it can differ in the last
  place, which changes what \<open>Math.round\<close> makes of it only for magnitudes beyond
  \<open>2^53\<close>.
\<close>

fun num_div :: "jsnum \<Rightarrow> real \<Rightarrow> jsnum" where
  "num_div (Fin a) c = Fin (a / c)"
| "num_div n c = n"

text \<open>\<open>Math.max\<close> of two numbers: \<open>NaN\<close> if either is.\<close>

fun num_max :: "jsnum \<Rightarrow> jsnum \<Rightarrow> jsnum" where
  "num_max NaN _ = NaN"
| "num_max _ NaN = NaN"
| "num_max a b = (if num_lt a b then b else a)"

text \<open>\<open>Math.round\<close>: the nearest integer, a tie going up (towards plus infinity).\<close>

fun num_round :: "jsnum \<Rightarrow> jsnum" where
  "num_round (Fin a) = Fin (of_int \<lfloor>a + 1 / 2\<rfloor>)"
| "num_round n = n"

subsection \<open>Operations on values\<close>

text \<open>Truthiness, as \<open>!x\<close> and \<open>x ? a : b\<close> test it.\<close>

fun truthy :: "jsval \<Rightarrow> bool" where
  "truthy JUndefined = False"
| "truthy JNull = False"
| "truthy (JBool b) = b"
| "truthy (JNum NaN) = False"
| "truthy (JNum (Fin x)) = (x \<noteq> 0)"
| "truthy (JNum n) = True"
| "truthy (JStr s) = (s \<noteq> [])"
| "truthy (JErr e) = True"
| "truthy (JArr xs) = True"
| "truthy (JObj kvs) = True"

text \<open>
  \<open>k in v\<close>: a \<open>TypeError\<close> unless \<open>v\<close> is an object. The keys the program asks for are
  \<open>temp\<close>, \<open>update\<close>, \<open>observer\<close>, \<open>date\<close>, \<open>temp_current\<close>, \<open>devices\<close> and
  \<open>favorites\<close>: none is a property of an array or of an error object, and none is
  inherited from \<open>Object.prototype\<close>. The text of the message is the host's.
\<close>

fun js_in :: "string \<Rightarrow> jsval \<Rightarrow> exn + bool" where
  "js_in k (JObj kvs) = Inr (k \<in> fst ` set kvs)"
| "js_in k (JArr xs) = Inr False"
| "js_in k (JErr e) = Inr False"
| "js_in k v = Inl (TypeError ''Cannot use in operator: right-hand side is not an object'')"

text \<open>
  \<open>v.k\<close>: the value stored under \<open>k\<close>, \<open>undefined\<close> when there is none. Reading a
  property of \<open>null\<close> or \<open>undefined\<close> throws in the host; every read in the program
  comes after a successful \<open>in\<close> or \<open>Array.isArray\<close> test of the same value, so the read
  is of an object or an array.
\<close>

fun get :: "jsval \<Rightarrow> string \<Rightarrow> jsval" where
  "get (JObj kvs) k = (case map_of kvs k of Some v \<Rightarrow> v | None \<Rightarrow> JUndefined)"
| "get v k = JUndefined"

text \<open>The own properties an object spread \<open>{...v}\<close> copies.\<close>

fun props :: "jsval \<Rightarrow> (string \<times> jsval) list" where
  "props (JObj kvs) = kvs"
| "props v = []"

fun isArray :: "jsval \<Rightarrow> bool" where
  "isArray (JArr xs) = True"
| "isArray v = False"

text \<open>\<open>v[0]\<close> of an array.\<close>

fun first :: "jsval \<Rightarrow> jsval" where
  "first (JArr (x # xs)) = x"
| "first v = JUndefined"

section \<open>The host: session store, network, console\<close>

text \<open>
  Modelled from the spec: the Session Store of \<open>./utils\<close> (not part of the sources at
  hand), "a set of cookie name/value pairs plus, optionally, remembered credentials".
\<close>

record store =
  cookies :: "string list"
  credentials :: "(string \<times> string) option"

datatype request =
    Fetch string "string option"
  | SignIn string string

record world =
  session :: store
  requests :: "request list"
  console :: "string list"

text \<open>
  What the program takes from its collaborators. \<open>remote\<close> is the outcome of one
  \<open>fetchData\<close> call (the decoded body, or what it throws), \<open>signin\<close> the outcome of the
  \<open>fetch\<close> of the sign-in form (status and \<open>Set-Cookie\<close> headers, or what it throws);
  both may depend on everything that happened before. \<open>chillFn\<close>, \<open>heatFn\<close>,
  \<open>parseDevicesList\<close> and \<open>setCookies\<close> are the functions of \<open>./utils\<close>.
  \<open>coerce\<close> is the host's conversion to a number of a string or an array (a number, or
  what the conversion throws); \<open>clock\<close> is the host's local time of day,
  \<open>getHours():getMinutes():getSeconds()\<close> of \<open>new Date(ms)\<close>.
\<close>

record env =
  remote :: "world \<Rightarrow> string \<Rightarrow> string option \<Rightarrow> exn + jsval"
  signin :: "world \<Rightarrow> string \<Rightarrow> string \<Rightarrow> exn + (int \<times> string list)"
  chillFn :: "jsval \<Rightarrow> jsval \<Rightarrow> jsval"
  heatFn :: "jsval \<Rightarrow> jsval \<Rightarrow> jsval"
  parseDevicesList :: "jsval \<Rightarrow> string option \<Rightarrow> exn + jsval"
  setCookies :: "string list \<Rightarrow> string \<Rightarrow> string \<Rightarrow> store \<Rightarrow> exn + (bool \<times> store)"
  coerce :: "jsval \<Rightarrow> exn + jsnum"
  clock :: "jsnum \<Rightarrow> string"

text \<open>
  \<open>ToNumber\<close>, which \<open><\<close>, \<open>>\<close>, \<open>==\<close>, \<open>-\<close>, \<open>*\<close> and \<open>/\<close> against a number apply to their
  operand. An object is first made a primitive: the host calls its \<open>valueOf\<close> (for a
  decoded object the inherited one, which returns the object) and then its \<open>toString\<close>.
  The inherited \<open>toString\<close> gives \<open>[object Object]\<close>, which is not a number; an own
  property \<open>toString\<close> of a decoded object is data, cannot be called, and the conversion
  throws a \<open>TypeError\<close>.
\<close>

fun convert :: "env \<Rightarrow> jsval \<Rightarrow> exn + jsnum" where
  "convert E JUndefined = Inr NaN"
| "convert E JNull = Inr (Fin 0)"
| "convert E (JBool b) = Inr (Fin (if b then 1 else 0))"
| "convert E (JNum n) = Inr n"
| "convert E (JErr e) = Inr NaN"
| "convert E (JObj kvs) =
     (if ''toString'' \<in> fst ` set kvs
      then Inl (TypeError ''Cannot convert object to primitive value'')
      else Inr NaN)"
| "convert E v = coerce E v"

text \<open>The number a conversion gives when it does not throw.\<close>

definition toNumber :: "env \<Rightarrow> jsval \<Rightarrow> jsnum" where
  "toNumber E v = (case convert E v of Inl e \<Rightarrow> NaN | Inr n \<Rightarrow> n)"

text \<open>\<open>v < c\<close> and \<open>v > c\<close> against a number \<open>c\<close>.\<close>

definition js_lt :: "env \<Rightarrow> jsval \<Rightarrow> real \<Rightarrow> exn + bool" where
  "js_lt E v c = (case convert E v of Inl e \<Rightarrow> Inl e | Inr n \<Rightarrow> Inr (num_lt n (Fin c)))"

definition js_gt :: "env \<Rightarrow> jsval \<Rightarrow> real \<Rightarrow> exn + bool" where
  "js_gt E v c = (case convert E v of Inl e \<Rightarrow> Inl e | Inr n \<Rightarrow> Inr (num_gt n (Fin c)))"

text \<open>\<open>v == 0\<close>: \<open>null\<close> and \<open>undefined\<close> are loosely equal to each other only.\<close>

fun js_eq0 :: "env \<Rightarrow> jsval \<Rightarrow> exn + bool" where
  "js_eq0 E JUndefined = Inr False"
| "js_eq0 E JNull = Inr False"
| "js_eq0 E v = (case convert E v of Inl e \<Rightarrow> Inl e | Inr n \<Rightarrow> Inr (num_eq n (Fin 0)))"

section \<open>Asynchronous operations\<close>

text \<open>
  An \<open>async\<close> function is a state transformer on the world whose outcome is a thrown
  value (\<open>Inl\<close>: the promise rejects) or a returned one (\<open>Inr\<close>: it resolves).
\<close>

type_synonym 'a io = "world \<Rightarrow> (exn + 'a) \<times> world"

definition ret :: "'a \<Rightarrow> 'a io" where
  "ret v w = (Inr v, w)"

definition throw :: "exn \<Rightarrow> 'a io" where
  "throw e w = (Inl e, w)"

definition lift :: "exn + 'a \<Rightarrow> 'a io" where
  "lift r w = (r, w)"

definition andThen :: "'a io \<Rightarrow> ('a \<Rightarrow> 'b io) \<Rightarrow> 'b io" where
  "andThen m f w = (case m w of (Inl e, w') \<Rightarrow> (Inl e, w') | (Inr v, w') \<Rightarrow> f v w')"

definition tryCatch :: "'a io \<Rightarrow> (exn \<Rightarrow> 'a io) \<Rightarrow> 'a io" where
  "tryCatch m h w = (case m w of (Inl e, w') \<Rightarrow> h e w' | (Inr v, w') \<Rightarrow> (Inr v, w'))"

text \<open>
  Modelled from the spec: \<open>fetchData\<close> of \<open>./utils\<close>, the HTTP Fetch Adapter that "issues
  GET/POST requests, attaches stored session cookies, decodes JSON". Each call is
  recorded in the world.
\<close>

definition fetchData :: "env \<Rightarrow> string \<Rightarrow> string option \<Rightarrow> jsval io" where
  "fetchData E url args w = (remote E w url args, w\<lparr>requests := requests w @ [Fetch url args]\<rparr>)"

text \<open>
  Modelled from the spec: \<open>getCookie\<close> of \<open>./utils\<close>, "getCookies() -> sequence of
  cookie pairs (read current state)".
\<close>

definition getCookie :: "string list io" where
  "getCookie w = (Inr (cookies (session w)), w)"

definition consoleLog :: "string \<Rightarrow> unit io" where
  "consoleLog s w = (Inr (), w\<lparr>console := console w @ [s]\<rparr>)"

text \<open>
  Expressions that may throw while they are evaluated. \<open>thenE\<close> evaluates one after the
  other; \<open>a || b\<close> evaluates \<open>b\<close> only when \<open>a\<close> is false, \<open>a && b\<close> only when \<open>a\<close> is true;
  \<open>if (c) throw e\<close> throws what \<open>c\<close> throws before it throws \<open>e\<close>.
\<close>

definition thenE :: "exn + 'a \<Rightarrow> ('a \<Rightarrow> exn + 'b) \<Rightarrow> exn + 'b" where
  "thenE a f = (case a of Inl e \<Rightarrow> Inl e | Inr v \<Rightarrow> f v)"

definition notE :: "exn + bool \<Rightarrow> exn + bool" where
  "notE a = (case a of Inl e \<Rightarrow> Inl e | Inr b \<Rightarrow> Inr (\<not> b))"

definition orElse :: "exn + bool \<Rightarrow> exn + bool \<Rightarrow> exn + bool" where
  "orElse a b = (case a of Inl e \<Rightarrow> Inl e | Inr c \<Rightarrow> (if c then Inr True else b))"

definition andAlso :: "exn + bool \<Rightarrow> exn + bool \<Rightarrow> exn + bool" where
  "andAlso a b = (case a of Inl e \<Rightarrow> Inl e | Inr c \<Rightarrow> (if c then b else Inr False))"

definition throwIf :: "exn + bool \<Rightarrow> exn \<Rightarrow> exn + unit" where
  "throwIf c e = (case c of Inl x \<Rightarrow> Inl x | Inr b \<Rightarrow> (if b then Inl e else Inr ()))"

text \<open>The value \<open>{ error: err }\<close> that a \<open>catch\<close> hands back.\<close>

definition errorObj :: "exn \<Rightarrow> jsval" where
  "errorObj err = JObj [(''error'', JErr err)]"

section \<open>fetchWeather\<close>

text \<open>\<open>/^\d{10}$/.test(id)\<close>: the whole of \<open>id\<close> is ten decimal digits.\<close>

definition tenDigits :: "string \<Rightarrow> bool" where
  "tenDigits s = (length s = 10 \<and> list_all (\<lambda>c. c \<in> set ''0123456789'') s)"

definition valuesUrl :: "string \<Rightarrow> string" where
  "valuesUrl id' = ''https://app.weathercloud.net/device/values?code='' @ id'"

definition updateUrl :: string where
  "updateUrl = ''https://app.weathercloud.net/device/ajaxupdatedate''"

definition profileUrl :: string where
  "profileUrl = ''https://app.weathercloud.net/device/ajaxprofile''"

text \<open>
  Line 27: the height of the cloud base. The two comparisons convert \<open>temp\<close> and, when
  the first holds, \<open>dew\<close>; the subtraction converts them again, to the same numbers. The
  literal \<open>124.69\<close> is the binary64 value nearest to it.
\<close>

definition cloudsHeight :: "env \<Rightarrow> jsval \<Rightarrow> exn + jsnum" where
  "cloudsHeight E data =
     thenE (andAlso (js_gt E (get data ''temp'') (- 40)) (js_gt E (get data ''dew'') (- 40)))
       (\<lambda>above.
          Inr (if above
               then num_max (Fin 0)
                      (num_mul (binary64 124.69)
                         (num_sub (toNumber E (get data ''temp''))
                                  (toNumber E (get data ''dew''))))
               else Fin (- 1)))"

text \<open>Lines 30 to 34: the condition under which the sample is refused.\<close>

definition invalidData :: "env \<Rightarrow> jsval \<Rightarrow> jsnum \<Rightarrow> exn + bool" where
  "invalidData E data height =
     orElse (js_lt E (get data ''bar'') 0)
       (orElse (js_lt E (get data ''rainrate'') 0)
         (orElse (Inr (num_lt height (Fin 0)))
           (orElse (js_lt E (get data ''hum'') 0)
             (js_gt E (get data ''hum'') 100))))"

text \<open>Lines 38 to 52: the condition label.\<close>

definition weatherAvg :: "env \<Rightarrow> jsval \<Rightarrow> jsnum \<Rightarrow> exn + string" where
  "weatherAvg E data height =
     thenE (js_eq0 E (get data ''rainrate'')) (\<lambda>dry.
       if dry then
         thenE
           (thenE (js_lt E (get data ''bar'') 1005) (\<lambda>b1.
              if b1 then Inr ''cloud''
              else thenE (js_lt E (get data ''bar'') 1010) (\<lambda>b2.
                if b2 then Inr ''change''
                else thenE (js_lt E (get data ''bar'') 1015) (\<lambda>b3.
                  Inr (if b3 then ''few'' else ''clear'')))))
           (\<lambda>avg. Inr (if num_lt height (Fin 150) then avg @ ''-fog'' else avg))
       else
         thenE (js_lt E (get data ''rainrate'') 2) (\<lambda>r1.
           if r1 then Inr ''light''
           else thenE (js_lt E (get data ''rainrate'') 15) (\<lambda>r2.
             Inr (if r2 then ''moderate'' else ''heavy''))))"

text \<open>Lines 55 to 57: the perceived temperature.\<close>

definition feel :: "env \<Rightarrow> jsval \<Rightarrow> exn + jsval" where
  "feel E data =
     thenE (js_lt E (get data ''temp'') 10) (\<lambda>cold.
       if cold then Inr (chillFn E (get data ''temp'') (get data ''wspd''))
       else thenE (js_gt E (get data ''temp'') 26) (\<lambda>hot.
         Inr (if hot then heatFn E (get data ''temp'') (get data ''hum'')
              else get data ''temp'')))"

text \<open>
  Lines 20 to 79, everything after the three fetches. An object literal
  \<open>{...o, k: v}\<close> copies the properties of \<open>o\<close> and then stores \<open>v\<close> under \<open>k\<close>, replacing
  what \<open>o\<close> had there; \<open>const { epoch, ...dataToSave } = data\<close> reads \<open>epoch\<close> and copies
  every other property. \<open>epoch*1000\<close> and \<open>lastUpdate.update/60\<close> convert their operand.
\<close>

definition buildReport :: "env \<Rightarrow> jsval \<Rightarrow> jsval \<Rightarrow> jsval \<Rightarrow> exn + jsval" where
  "buildReport E data lastUpdate profile =
     thenE (throwIf
              (orElse (notE (js_in ''temp'' data))
                (orElse (notE (js_in ''update'' lastUpdate))
                  (notE (js_in ''observer'' profile))))
              (Error ''Failed to fetch'')) (\<lambda>_.
     thenE (cloudsHeight E data) (\<lambda>height.
     thenE (throwIf (invalidData E data height) (Error ''Invalid data'')) (\<lambda>_.
     thenE (weatherAvg E data height) (\<lambda>avg.
     thenE (feel E data) (\<lambda>fl.
     thenE (convert E (get data ''epoch'')) (\<lambda>seconds.
     thenE (convert E (get lastUpdate ''update'')) (\<lambda>age.
       (let epoch = get data ''epoch'';
            dataToSave = AList.delete ''epoch'' (props data);
            weather =
              AList.update ''feel'' fl
                (AList.update ''weatherAvg'' (JStr avg)
                  (AList.update ''cloudsHeight'' (JNum height) dataToSave));
            time = clock E (num_mul seconds (Fin 1000));
            upd =
              AList.update ''updateTime'' epoch
                (AList.update ''lastUpdateMinutes'' (JNum (num_round (num_div age 60)))
                  (AList.update ''time'' (JStr time) (props lastUpdate)))
        in Inr (JObj [(''weather'', JObj weather),
                      (''update'', JObj upd),
                      (''profile'', profile)])))))))))"

definition fetchWeather :: "env \<Rightarrow> string \<Rightarrow> jsval io" where
  "fetchWeather E id' =
     tryCatch
       (if id' = [] \<or> tenDigits id' then throw (Error ''invalid ID'')
        else
          andThen (fetchData E (valuesUrl id') None) (\<lambda>data.
          andThen (fetchData E updateUrl (Some (''d='' @ id'))) (\<lambda>lastUpdate.
          andThen (fetchData E profileUrl (Some (''d='' @ id'))) (\<lambda>profile.
          lift (buildReport E data lastUpdate profile)))))
       (\<lambda>err. ret (errorObj err))"

section \<open>The other queries\<close>

definition getStationStatus :: "env \<Rightarrow> string \<Rightarrow> jsval io" where
  "getStationStatus E id' =
     tryCatch
       (andThen getCookie (\<lambda>cs.
        if length cs < 1 then throw (Error ''Session required!'')
        else
          andThen (fetchData E ''https://app.weathercloud.net/device/ajaxdevicestats''
                     (Some (''device='' @ id'))) (\<lambda>data.
          andThen (lift (throwIf
                     (orElse (Inr (\<not> truthy data))
                       (orElse (Inr (\<not> isArray data))
                         (notE (js_in ''date'' (first data)))))
                     (Error ''Failed to fetch''))) (\<lambda>_.
          ret data))))
       (\<lambda>err. ret (errorObj err))"

definition getStatistics :: "env \<Rightarrow> string \<Rightarrow> jsval io" where
  "getStatistics E id' =
     tryCatch
       (andThen (fetchData E ''https://app.weathercloud.net/device/stats''
                   (Some (''code='' @ id'))) (\<lambda>data.
        andThen (lift (throwIf
                   (orElse (Inr (\<not> truthy data)) (notE (js_in ''temp_current'' data)))
                   (Error ''Failed to fetch''))) (\<lambda>_.
        ret data)))
       (\<lambda>err. ret (errorObj err))"

text \<open>
  The test \<open>!data || !("devices" in data) || !Array.isArray(data.devices)\<close> of
  \<open>getNearest\<close> and \<open>getTop\<close>.
\<close>

definition noDevices :: "jsval \<Rightarrow> exn + bool" where
  "noDevices data =
     orElse (Inr (\<not> truthy data))
       (orElse (notE (js_in ''devices'' data))
         (Inr (\<not> isArray (get data ''devices''))))"

text \<open>
  \<open>lat\<close>, \<open>lon\<close> and \<open>radius\<close> are strings or numbers in the source; the model takes the
  text the template literal makes of them.
\<close>

definition getNearest :: "env \<Rightarrow> string \<Rightarrow> string \<Rightarrow> string \<Rightarrow> jsval io" where
  "getNearest E lat lon radius =
     tryCatch
       (andThen (fetchData E
                   (''https://app.weathercloud.net/page/coordinates/latitude/'' @ lat @
                    ''/longitude/'' @ lon @ ''/distance/'' @ radius) None) (\<lambda>data.
        andThen (lift (throwIf (noDevices data) (Error ''Failed to fetch''))) (\<lambda>_.
        lift (parseDevicesList E (get data ''devices'') (Some ''distance'')))))
       (\<lambda>err. ret (JArr [errorObj err]))"

datatype definer = Newest | Followers | Popular

fun definerName :: "definer \<Rightarrow> string" where
  "definerName Newest = ''newest''"
| "definerName Followers = ''followers''"
| "definerName Popular = ''popular''"

text \<open>Lines 126 to 128: the key the list is sorted by.\<close>

fun dataType :: "definer \<Rightarrow> string" where
  "dataType Newest = ''age''"
| "dataType Followers = ''followers''"
| "dataType Popular = ''views''"

text \<open>
  Lines 118 to 122, the local variable \<open>url\<close>. The first component is what \<open>url\<close> holds
  once line 118 has run; the second is what it holds after line 122, or what line 120
  throws.
\<close>

definition getTopUrl :: "definer \<Rightarrow> string \<Rightarrow> string option \<Rightarrow> string \<times> (exn + string)" where
  "getTopUrl definer countryCode period =
     (let url = ''https://app.weathercloud.net/page/'' @ definerName definer @
                ''/country/'' @ countryCode
      in (url,
          if definer = Popular then
            (case period of
               None \<Rightarrow> Inl (Error ''Period required for popular ranking'')
             | Some p \<Rightarrow>
                 if p = [] then Inl (Error ''Period required for popular ranking'')
                 else Inr (url @ ''/period/'' @ p))
          else Inr url))"

definition getTop :: "env \<Rightarrow> definer \<Rightarrow> string \<Rightarrow> string option \<Rightarrow> jsval io" where
  "getTop E definer countryCode period =
     tryCatch
       (andThen (lift (snd (getTopUrl definer countryCode period))) (\<lambda>url.
        andThen (consoleLog url) (\<lambda>_.
        andThen (fetchData E url None) (\<lambda>data.
        andThen (lift (throwIf (noDevices data) (Error ''Failed to fetch''))) (\<lambda>_.
        lift (parseDevicesList E (get data ''devices'') (Some (dataType definer))))))))
       (\<lambda>err. ret (errorObj err))"

definition getOwn :: "env \<Rightarrow> jsval io" where
  "getOwn E =
     tryCatch
       (andThen getCookie (\<lambda>cs.
        if length cs < 1 then throw (Error ''Session required!'')
        else
          andThen (fetchData E ''https://app.weathercloud.net/page/own'' None) (\<lambda>data.
          andThen (lift (throwIf
                     (orElse (Inr (\<not> truthy data))
                       (orElse (notE (js_in ''devices'' data))
                         (notE (js_in ''favorites'' data))))
                     (Error ''Failed to fetch''))) (\<lambda>_.
          andThen (lift (parseDevicesList E (get data ''devices'') None)) (\<lambda>devices.
          andThen (lift (parseDevicesList E (get data ''favorites'') None)) (\<lambda>favorites.
          ret (JObj [(''devices'', devices), (''favorites'', favorites)])))))))
       (\<lambda>err. ret (errorObj err))"

section \<open>login\<close>

text \<open>\<open>xs.join("; ")\<close> and \<open>s.split("; ")\<close>.\<close>

fun joinSemi :: "string list \<Rightarrow> string" where
  "joinSemi [] = []"
| "joinSemi [x] = x"
| "joinSemi (x # y # ys) = x @ ''; '' @ joinSemi (y # ys)"

fun splitSemi :: "string \<Rightarrow> string \<Rightarrow> string list" where
  "splitSemi acc [] = [rev acc]"
| "splitSemi acc [c] = [rev (c # acc)]"
| "splitSemi acc (c # d # cs) =
     (if c = CHR '';'' \<and> d = CHR '' '' then rev acc # splitSemi [] cs
      else splitSemi (c # acc) (d # cs))"

text \<open>
  Lines 149 to 171. Nothing here is inside a \<open>try\<close>: what \<open>fetch\<close> or \<open>setCookies\<close>
  throws, \<open>login\<close> throws. The request is recorded in the world whether it is answered
  or not. \<open>storeCredentials\<close> is optional: \<open>None\<close> is the absent argument.
\<close>

definition login :: "env \<Rightarrow> string \<Rightarrow> string \<Rightarrow> bool option \<Rightarrow> bool io" where
  "login E mail password storeCredentials w =
     (let w1 = w\<lparr>requests := requests w @ [SignIn mail password]\<rparr> in
      case signin E w mail password of
        Inl e \<Rightarrow> (Inl e, w1)
      | Inr (status, setCookie) \<Rightarrow>
          if status \<noteq> 302 then (Inr False, w1)
          else
            (let stored = (if storeCredentials = Some True then (mail, password)
                           else ('''', ''''))
             in case setCookies E (splitSemi [] (joinSemi setCookie))
                       (fst stored) (snd stored) (session w1) of
                  Inl e \<Rightarrow> (Inl e, w1)
                | Inr (ok, s) \<Rightarrow> (Inr ok, w1\<lparr>session := s\<rparr>)))"

section \<open>Vocabulary of the statements\<close>

text \<open>
  \<open>fetched E id w data lastUpdate profile w'\<close>: the three requests of \<open>fetchWeather id\<close>,
  issued one after the other from the world \<open>w\<close>, deliver \<open>data\<close>, \<open>lastUpdate\<close> and
  \<open>profile\<close> and leave the world \<open>w'\<close>.
\<close>

definition fetched :: "env \<Rightarrow> string \<Rightarrow> world \<Rightarrow> jsval \<Rightarrow> jsval \<Rightarrow> jsval \<Rightarrow> world \<Rightarrow> bool" where
  "fetched E id' w data lastUpdate profile w' =
     (case fetchData E (valuesUrl id') None w of (r1, w1) \<Rightarrow>
      case fetchData E updateUrl (Some (''d='' @ id')) w1 of (r2, w2) \<Rightarrow>
      case fetchData E profileUrl (Some (''d='' @ id')) w2 of (r3, w3) \<Rightarrow>
        r1 = Inr data \<and> r2 = Inr lastUpdate \<and> r3 = Inr profile \<and> w' = w3)"

text \<open>\<open>converts E v\<close>: the host makes a number of \<open>v\<close> without throwing.\<close>

definition converts :: "env \<Rightarrow> jsval \<Rightarrow> bool" where
  "converts E v = (case convert E v of Inl e \<Rightarrow> False | Inr n \<Rightarrow> True)"

text \<open>
  \<open>complete\<close>: each payload carries its marker. \<open>accepted\<close>: moreover the height of the
  cloud base is computed, the sample passes the validity check of lines 30 to 35, and
  the epoch and the age of the update convert to numbers.
\<close>

definition complete :: "jsval \<Rightarrow> jsval \<Rightarrow> jsval \<Rightarrow> bool" where
  "complete data lastUpdate profile =
     (js_in ''temp'' data = Inr True \<and>
      js_in ''update'' lastUpdate = Inr True \<and>
      js_in ''observer'' profile = Inr True)"

definition accepted :: "env \<Rightarrow> jsval \<Rightarrow> jsval \<Rightarrow> jsval \<Rightarrow> bool" where
  "accepted E data lastUpdate profile =
     (complete data lastUpdate profile \<and>
      thenE (cloudsHeight E data) (invalidData E data) = Inr False \<and>
      converts E (get data ''epoch'') \<and>
      converts E (get lastUpdate ''update''))"

text \<open>The values on which \<open>in\<close> does not throw.\<close>

fun objectLike :: "jsval \<Rightarrow> bool" where
  "objectLike (JObj kvs) = True"
| "objectLike (JArr xs) = True"
| "objectLike (JErr e) = True"
| "objectLike v = False"

text \<open>
  The readings of the sample that the program converts to numbers, and the condition on
  them under which the validity check of lines 30 to 35 refuses it: temperature or dew
  point at most \<open>-40\<close>, pressure or rain rate negative, humidity below 0 or above 100.
\<close>

definition readings :: "string list" where
  "readings = [''temp'', ''dew'', ''bar'', ''rainrate'', ''hum'']"

definition outOfRange :: "env \<Rightarrow> jsval \<Rightarrow> bool" where
  "outOfRange E data =
     (num_le (toNumber E (get data ''temp'')) (Fin (- 40)) \<or>
      num_le (toNumber E (get data ''dew'')) (Fin (- 40)) \<or>
      num_lt (toNumber E (get data ''bar'')) (Fin 0) \<or>
      num_lt (toNumber E (get data ''rainrate'')) (Fin 0) \<or>
      num_lt (toNumber E (get data ''hum'')) (Fin 0) \<or>
      num_gt (toNumber E (get data ''hum'')) (Fin 100))"

section \<open>A sample station\<close>

text \<open>
  Concrete payloads and concrete hosts, on which the statements below are exercised:
  a station whose three endpoints answer with the given payloads and whose session
  store keeps what it is given, a host whose network is down, and a host whose session
  store keeps the credentials it has when it is given none.
\<close>

definition sample :: "real \<Rightarrow> real \<Rightarrow> real \<Rightarrow> real \<Rightarrow> real \<Rightarrow> jsval" where
  "sample t d b h rr =
     JObj [(''temp'', JNum (Fin t)), (''dew'', JNum (Fin d)), (''bar'', JNum (Fin b)),
           (''hum'', JNum (Fin h)), (''rainrate'', JNum (Fin rr)), (''wspd'', JNum (Fin 3)),
           (''epoch'', JNum (Fin 1700000000))]"

text \<open>A sample at 50 degrees below zero whose pressure is an object, not a number.\<close>

definition oddSample :: jsval where
  "oddSample =
     JObj [(''temp'', JNum (Fin (- 50))), (''dew'', JNum (Fin (- 55))),
           (''bar'', JObj [(''toString'', JNum (Fin 1))]),
           (''hum'', JNum (Fin 60)), (''rainrate'', JNum (Fin 0)), (''wspd'', JNum (Fin 3)),
           (''epoch'', JNum (Fin 1700000000))]"

definition sampleUpdate :: jsval where
  "sampleUpdate = JObj [(''update'', JNum (Fin 95))]"

definition sampleProfile :: jsval where
  "sampleProfile = JObj [(''observer'', JStr ''Jean'')]"

definition station :: "jsval \<Rightarrow> jsval \<Rightarrow> jsval \<Rightarrow> env" where
  "station values lastUpdate profile =
     \<lparr> remote = (\<lambda>w url args.
          if url = updateUrl then Inr lastUpdate
          else if url = profileUrl then Inr profile
          else Inr values),
       signin = (\<lambda>w mail password. Inr (302, [''sid=abc; path=/''])),
       chillFn = (\<lambda>t v. JNum (num_sub (case t of JNum n \<Rightarrow> n | _ \<Rightarrow> NaN) (Fin 2))),
       heatFn = (\<lambda>t h. JNum (num_sub (case t of JNum n \<Rightarrow> n | _ \<Rightarrow> NaN) (Fin (- 3)))),
       parseDevicesList = (\<lambda>devices key. Inr devices),
       setCookies = (\<lambda>cs mail password s.
          Inr (True, \<lparr>cookies = cs, credentials = Some (mail, password)\<rparr>)),
       coerce = (\<lambda>v. Inr NaN),
       clock = (\<lambda>ms. ''12:0:0'') \<rparr>"

definition offline :: env where
  "offline =
     (station JNull JNull JNull)
       \<lparr> remote := (\<lambda>w url args. Inl (TypeError ''fetch failed'')),
         signin := (\<lambda>w mail password. Inl (TypeError ''fetch failed'')) \<rparr>"


definition fresh :: world where
  "fresh = \<lparr> session = \<lparr>cookies = [], credentials = None\<rparr>, requests = [], console = [] \<rparr>"

text \<open>The world after the three requests of \<open>fetchWeather\<close>.\<close>

definition afterFetches :: "string \<Rightarrow> world \<Rightarrow> world" where
  "afterFetches id' w =
     w\<lparr>requests := requests w @
        [Fetch (valuesUrl id') None,
         Fetch updateUrl (Some (''d='' @ id')),
         Fetch profileUrl (Some (''d='' @ id'))]\<rparr>"



section \<open>Binary64 at work\<close>

text \<open>
  The rounding evaluated: the literal \<open>124.69\<close>; the height at 18 and 11 degrees, which
  prints as \<open>872.8299999999999\<close> where the exact product is \<open>872.83\<close>; a height that is
  exactly 150 where the exact product is below it; and a height that overflows.
\<close>

declare expUp.simps [simp del] expDown.simps [simp del]

lemmas binary64_eval =
  binary64_def exponent_def expUp.simps expDown.simps pow2_def roundEven_def Let_def

lemma literal_124_69: "binary64 124.69 = Fin (2193569677878231 / 17592186044416)"
  by (simp add: binary64_eval)

lemma height_18_11:
  "num_max (Fin 0) (num_mul (binary64 124.69) (num_sub (Fin 18) (Fin 11))) =
     Fin (479843367035863 / 549755813888)"
  by (simp add: binary64_eval)

lemma height_150:
  "num_max (Fin 0) (num_mul (binary64 124.69) (num_sub (Fin 1.202983398829096) (Fin 0))) =
     Fin 150"
  by (simp add: binary64_eval)

lemma height_overflow:
  "num_max (Fin 0) (num_mul (binary64 124.69) (num_sub (Fin (10 ^ 308)) (Fin (- (10 ^ 308))))) =
     PInf"
  by (simp add: binary64_eval infTimes_def)

section \<open>The error boundary of the queries\<close>

text \<open>
  The body of every query other than \<open>login\<close> is one \<open>try\<close> whose \<open>catch\<close> returns a
  value: whatever the body throws, the query returns.
\<close>

lemma tryCatch_ret:
  "tryCatch m (\<lambda>err. ret (h err)) w =
     (case m w of (Inl e, w') \<Rightarrow> (Inr (h e), w') | (Inr v, w') \<Rightarrow> (Inr v, w'))"
  by (simp add: tryCatch_def ret_def split: prod.splits sum.splits)

lemma tryCatch_returns: "\<exists>v w'. tryCatch m (\<lambda>err. ret (h err)) w = (Inr v, w')"
  by (cases "m w") (auto simp: tryCatch_def ret_def split: sum.splits)

lemma fetchWeather_returns: "\<exists>v w'. fetchWeather E id' w = (Inr v, w')"
  unfolding fetchWeather_def by (rule tryCatch_returns)

lemma getStationStatus_returns: "\<exists>v w'. getStationStatus E id' w = (Inr v, w')"
  unfolding getStationStatus_def by (rule tryCatch_returns)

lemma getStatistics_returns: "\<exists>v w'. getStatistics E id' w = (Inr v, w')"
  unfolding getStatistics_def by (rule tryCatch_returns)

lemma getNearest_returns: "\<exists>v w'. getNearest E lat lon radius w = (Inr v, w')"
  unfolding getNearest_def by (rule tryCatch_returns)

lemma getTop_returns: "\<exists>v w'. getTop E definer countryCode period w = (Inr v, w')"
  unfolding getTop_def by (rule tryCatch_returns)

lemma getOwn_returns: "\<exists>v w'. getOwn E w = (Inr v, w')"
  unfolding getOwn_def by (rule tryCatch_returns)

section \<open>fetchWeather, step by step\<close>

lemma fetched_station:
  "fetched (station v u p) id' w v u p (afterFetches id' w)"
  by (simp add: fetched_def fetchData_def station_def afterFetches_def valuesUrl_def
        updateUrl_def profileUrl_def)

lemma fetchWeather_run:
  assumes "id' \<noteq> []" and "\<not> tenDigits id'"
    and "fetched E id' w data lastUpdate profile w'"
  shows "fetchWeather E id' w =
           (Inr (case buildReport E data lastUpdate profile of
                   Inl e \<Rightarrow> errorObj e | Inr r \<Rightarrow> r), w')"
  using assms
  by (auto simp: fetchWeather_def fetched_def tryCatch_def andThen_def lift_def ret_def
           split: prod.splits sum.splits)

lemma thenE_Inr: "thenE a f = Inr r \<longleftrightarrow> (\<exists>v. a = Inr v \<and> f v = Inr r)"
  by (cases a) (simp_all add: thenE_def)

lemma throwIf_Inr: "throwIf c e = Inr u \<longleftrightarrow> c = Inr False"
  by (cases c) (auto simp: throwIf_def)


lemma converts_iff: "converts E v \<longleftrightarrow> (\<exists>n. convert E v = Inr n)"
  by (cases "convert E v") (simp_all add: converts_def)

lemma markers_complete:
  "orElse (notE (js_in ''temp'' data))
     (orElse (notE (js_in ''update'' lastUpdate))
       (notE (js_in ''observer'' profile))) = Inr False
   \<longleftrightarrow> complete data lastUpdate profile"
  by (cases "js_in ''temp'' data"; cases "js_in ''update'' lastUpdate";
      cases "js_in ''observer'' profile")
     (auto simp: complete_def orElse_def notE_def)

text \<open>What a report that has been built is made of.\<close>

lemma buildReport_Inr:
  assumes "buildReport E data lastUpdate profile = Inr r"
  shows "\<exists>height avg fl seconds age.
           complete data lastUpdate profile \<and>
           cloudsHeight E data = Inr height \<and>
           invalidData E data height = Inr False \<and>
           weatherAvg E data height = Inr avg \<and>
           feel E data = Inr fl \<and>
           convert E (get data ''epoch'') = Inr seconds \<and>
           convert E (get lastUpdate ''update'') = Inr age \<and>
           r = JObj [(''weather'',
                      JObj (AList.update ''feel'' fl
                             (AList.update ''weatherAvg'' (JStr avg)
                               (AList.update ''cloudsHeight'' (JNum height)
                                 (AList.delete ''epoch'' (props data)))))),
                     (''update'',
                      JObj (AList.update ''updateTime'' (get data ''epoch'')
                             (AList.update ''lastUpdateMinutes''
                                (JNum (num_round (num_div age 60)))
                               (AList.update ''time''
                                  (JStr (clock E (num_mul seconds (Fin 1000))))
                                  (props lastUpdate))))),
                     (''profile'', profile)]"
  using assms
  unfolding buildReport_def thenE_Inr throwIf_Inr markers_complete Let_def
  by blast

lemma buildReport_accepted:
  assumes "complete data lastUpdate profile"
    and "cloudsHeight E data = Inr height"
    and "invalidData E data height = Inr False"
    and "weatherAvg E data height = Inr avg"
    and "feel E data = Inr fl"
    and "convert E (get data ''epoch'') = Inr seconds"
    and "convert E (get lastUpdate ''update'') = Inr age"
  shows "\<exists>r. buildReport E data lastUpdate profile = Inr r"
  using assms
  unfolding buildReport_def thenE_Inr throwIf_Inr markers_complete Let_def
  by blast

lemma js_lt_Inr: "js_lt E v c = Inr b \<longleftrightarrow> (\<exists>n. convert E v = Inr n \<and> b = num_lt n (Fin c))"
  by (cases "convert E v") (auto simp: js_lt_def)

lemma js_gt_Inr: "js_gt E v c = Inr b \<longleftrightarrow> (\<exists>n. convert E v = Inr n \<and> b = num_gt n (Fin c))"
  by (cases "convert E v") (auto simp: js_gt_def)

lemma js_eq0_returns: "convert E v = Inr n \<Longrightarrow> \<exists>b. js_eq0 E v = Inr b"
  by (cases v) auto

lemma orElse_False: "orElse a b = Inr False \<longleftrightarrow> a = Inr False \<and> b = Inr False"
  by (cases a) (auto simp: orElse_def)

lemma orElse_Inr:
  "a = Inr x \<Longrightarrow> b = Inr y \<Longrightarrow> orElse a b = Inr (x \<or> y)"
  by (auto simp: orElse_def)

lemma andAlso_Inr:
  "andAlso a b = Inr c \<longleftrightarrow>
     (a = Inr False \<and> \<not> c) \<or> (a = Inr True \<and> b = Inr c)"
  by (cases a) (auto simp: andAlso_def)

lemma num_le_not_gt: "num_le a b \<Longrightarrow> \<not> num_gt a b"
  by (cases a; cases b) (auto simp: num_le_def num_gt_def)

lemma num_max_not_negative: "\<not> num_lt (num_max (Fin 0) x) (Fin 0)"
  by (cases x) auto

lemma cloudsHeight_numbers:
  "get data ''temp'' = JNum (Fin t) \<Longrightarrow> get data ''dew'' = JNum (Fin d) \<Longrightarrow>
     cloudsHeight E data =
       Inr (if - 40 < t \<and> - 40 < d
            then num_max (Fin 0) (num_mul (binary64 124.69) (binary64 (t - d)))
            else Fin (- 1))"
  by (simp add: cloudsHeight_def thenE_def andAlso_def js_gt_def num_gt_def toNumber_def)

lemma cloudsHeight_converted:
  assumes "convert E (get data ''temp'') = Inr T" and "convert E (get data ''dew'') = Inr D"
  shows "cloudsHeight E data =
           Inr (if num_gt T (Fin (- 40)) \<and> num_gt D (Fin (- 40))
                then num_max (Fin 0) (num_mul (binary64 124.69) (num_sub T D))
                else Fin (- 1))"
  using assms
  by (simp add: cloudsHeight_def thenE_def andAlso_def js_gt_def toNumber_def)

lemma cloudsHeight_Inr:
  assumes "cloudsHeight E data = Inr h"
  shows "\<exists>T. convert E (get data ''temp'') = Inr T"
  using assms
  by (auto simp: cloudsHeight_def thenE_Inr andAlso_Inr js_gt_Inr)

lemma cloudsHeight_not_negative:
  assumes "cloudsHeight E data = Inr h" and "\<not> num_lt h (Fin 0)"
  shows "\<exists>T D. convert E (get data ''temp'') = Inr T \<and> num_gt T (Fin (- 40)) \<and>
              convert E (get data ''dew'') = Inr D \<and> num_gt D (Fin (- 40))"
proof -
  from assms(1) obtain above where
    a: "andAlso (js_gt E (get data ''temp'') (- 40)) (js_gt E (get data ''dew'') (- 40)) =
          Inr above"
    and h: "h = (if above
                 then num_max (Fin 0)
                        (num_mul (binary64 124.69)
                           (num_sub (toNumber E (get data ''temp''))
                                    (toNumber E (get data ''dew''))))
                 else Fin (- 1))"
    unfolding cloudsHeight_def thenE_Inr by blast
  have above
  proof (rule ccontr)
    assume "\<not> above"
    with h have "h = Fin (- 1)" by simp
    with assms(2) show False by simp
  qed
  with a show ?thesis
    by (auto simp: andAlso_Inr js_gt_Inr)
qed

lemma invalidData_False:
  "invalidData E data h = Inr False \<longleftrightarrow>
     (\<exists>B R H. convert E (get data ''bar'') = Inr B \<and> \<not> num_lt B (Fin 0) \<and>
              convert E (get data ''rainrate'') = Inr R \<and> \<not> num_lt R (Fin 0) \<and>
              \<not> num_lt h (Fin 0) \<and>
              convert E (get data ''hum'') = Inr H \<and> \<not> num_lt H (Fin 0) \<and>
              \<not> num_gt H (Fin 100))"
  by (auto simp: invalidData_def orElse_False js_lt_Inr js_gt_Inr)

lemma invalidData_converted:
  assumes "convert E (get data ''bar'') = Inr B"
    and "convert E (get data ''rainrate'') = Inr R"
    and "convert E (get data ''hum'') = Inr H"
  shows "invalidData E data h =
           Inr (num_lt B (Fin 0) \<or> num_lt R (Fin 0) \<or> num_lt h (Fin 0) \<or>
                num_lt H (Fin 0) \<or> num_gt H (Fin 100))"
  using assms by (simp add: invalidData_def orElse_def js_lt_def js_gt_def)

lemma weatherAvg_returns:
  assumes "convert E (get data ''bar'') = Inr B"
    and "convert E (get data ''rainrate'') = Inr R"
  shows "\<exists>avg. weatherAvg E data h = Inr avg"
proof -
  from js_eq0_returns [OF assms(2)] obtain dry where
    "js_eq0 E (get data ''rainrate'') = Inr dry" by blast
  with assms show ?thesis
    by (simp add: weatherAvg_def thenE_def js_lt_def)
qed

lemma feel_returns:
  assumes "convert E (get data ''temp'') = Inr T"
  shows "\<exists>fl. feel E data = Inr fl"
  using assms by (simp add: feel_def thenE_def js_lt_def js_gt_def)

lemma accepted_buildReport:
  assumes "accepted E data lastUpdate profile"
  shows "\<exists>r. buildReport E data lastUpdate profile = Inr r"
proof -
  from assms obtain h where c: "complete data lastUpdate profile"
    and h: "cloudsHeight E data = Inr h" and v: "invalidData E data h = Inr False"
    and e: "converts E (get data ''epoch'')" and u: "converts E (get lastUpdate ''update'')"
    by (auto simp: accepted_def thenE_Inr)
  from v obtain B R where B: "convert E (get data ''bar'') = Inr B"
    and R: "convert E (get data ''rainrate'') = Inr R"
    unfolding invalidData_False by blast
  from cloudsHeight_Inr [OF h] obtain T where T: "convert E (get data ''temp'') = Inr T"
    by blast
  from weatherAvg_returns [OF B R] obtain avg where a: "weatherAvg E data h = Inr avg"
    by blast
  from feel_returns [OF T] obtain fl where f: "feel E data = Inr fl" by blast
  from e u obtain seconds age where s: "convert E (get data ''epoch'') = Inr seconds"
    and g: "convert E (get lastUpdate ''update'') = Inr age"
    unfolding converts_iff by blast
  from buildReport_accepted [OF c h v a f s g] show ?thesis .
qed

lemma buildReport_invalid:
  assumes "complete data lastUpdate profile"
    and "thenE (cloudsHeight E data) (invalidData E data) = Inr True"
  shows "buildReport E data lastUpdate profile = Inl (Error ''Invalid data'')"
proof -
  from assms(2) obtain h where "cloudsHeight E data = Inr h" "invalidData E data h = Inr True"
    unfolding thenE_Inr by blast
  with assms(1) show ?thesis
    by (simp add: buildReport_def markers_complete [symmetric] thenE_def throwIf_def)
qed

lemma buildReport_incomplete:
  "\<not> complete data lastUpdate profile \<Longrightarrow> \<exists>e. buildReport E data lastUpdate profile = Inl e"
  using buildReport_Inr [of E data lastUpdate profile]
  by (cases "buildReport E data lastUpdate profile") auto

lemma buildReport_missing:
  assumes "objectLike data" "objectLike lastUpdate" "objectLike profile"
    and "\<not> complete data lastUpdate profile"
  shows "buildReport E data lastUpdate profile = Inl (Error ''Failed to fetch'')"
  using assms
  by (cases data; cases lastUpdate; cases profile)
     (auto simp: buildReport_def complete_def thenE_def throwIf_def orElse_def notE_def)

lemma refused:
  assumes "list_all (\<lambda>k. converts E (get data k)) readings" and "outOfRange E data"
  shows "thenE (cloudsHeight E data) (invalidData E data) = Inr True"
proof -
  from assms(1) obtain T D B R H where
    T: "convert E (get data ''temp'') = Inr T" and D: "convert E (get data ''dew'') = Inr D"
    and B: "convert E (get data ''bar'') = Inr B"
    and R: "convert E (get data ''rainrate'') = Inr R"
    and H: "convert E (get data ''hum'') = Inr H"
    by (auto simp: readings_def converts_iff)
  have cold: "num_le T (Fin (- 40)) \<or> num_le D (Fin (- 40)) \<Longrightarrow>
                cloudsHeight E data = Inr (Fin (- 1))"
    using cloudsHeight_converted [OF T D] num_le_not_gt by auto
  from assms(2) T D B R H cold cloudsHeight_converted [OF T D] invalidData_converted [OF B R H]
  show ?thesis
    by (auto simp: outOfRange_def toNumber_def thenE_def)
qed

lemma not_outOfRange:
  assumes "cloudsHeight E data = Inr h" and "invalidData E data h = Inr False"
  shows "\<not> outOfRange E data"
proof -
  from assms(2) obtain B R H where
    B: "convert E (get data ''bar'') = Inr B" "\<not> num_lt B (Fin 0)"
    and R: "convert E (get data ''rainrate'') = Inr R" "\<not> num_lt R (Fin 0)"
    and h: "\<not> num_lt h (Fin 0)"
    and H: "convert E (get data ''hum'') = Inr H" "\<not> num_lt H (Fin 0)" "\<not> num_gt H (Fin 100)"
    unfolding invalidData_False by blast
  from cloudsHeight_not_negative [OF assms(1) h] obtain T D where
    T: "convert E (get data ''temp'') = Inr T" "num_gt T (Fin (- 40))"
    and D: "convert E (get data ''dew'') = Inr D" "num_gt D (Fin (- 40))"
    by blast
  from B R H T D num_le_not_gt show ?thesis
    by (auto simp: outOfRange_def toNumber_def)
qed

lemma outOfRange_no_report:
  assumes "outOfRange E data"
  shows "\<exists>e. buildReport E data lastUpdate profile = Inl e"
proof (cases "buildReport E data lastUpdate profile")
  case (Inl e)
  then show ?thesis by blast
next
  case (Inr r)
  from buildReport_Inr [OF Inr] not_outOfRange assms show ?thesis by blast
qed


lemma accepted_run:
  assumes "id' \<noteq> []" and "\<not> tenDigits id'"
    and "fetched E id' w data lastUpdate profile w'"
    and "accepted E data lastUpdate profile"
  shows "\<exists>r. buildReport E data lastUpdate profile = Inr r \<and>
              fetchWeather E id' w = (Inr r, w')"
proof -
  from accepted_buildReport [OF assms(4)]
  obtain r where r: "buildReport E data lastUpdate profile = Inr r" by blast
  with fetchWeather_run [OF assms(1-3)] show ?thesis by simp
qed

lemma buildReport_weather:
  assumes "buildReport E data lastUpdate profile = Inr r"
  shows "\<exists>h avg. cloudsHeight E data = Inr h \<and> invalidData E data h = Inr False \<and>
           weatherAvg E data h = Inr avg \<and>
           get (get r ''weather'') ''cloudsHeight'' = JNum h \<and>
           get (get r ''weather'') ''weatherAvg'' = JStr avg \<and>
           feel E data = Inr (get (get r ''weather'') ''feel'') \<and>
           js_in ''epoch'' (get r ''weather'') = Inr False"
proof -
  from buildReport_Inr [OF assms] obtain height avg fl seconds age where
    h: "cloudsHeight E data = Inr height" and v: "invalidData E data height = Inr False"
    and a: "weatherAvg E data height = Inr avg" and f: "feel E data = Inr fl"
    and r: "r = JObj [(''weather'',
                      JObj (AList.update ''feel'' fl
                             (AList.update ''weatherAvg'' (JStr avg)
                               (AList.update ''cloudsHeight'' (JNum height)
                                 (AList.delete ''epoch'' (props data)))))),
                     (''update'',
                      JObj (AList.update ''updateTime'' (get data ''epoch'')
                             (AList.update ''lastUpdateMinutes''
                                (JNum (num_round (num_div age 60)))
                               (AList.update ''time''
                                  (JStr (clock E (num_mul seconds (Fin 1000))))
                                  (props lastUpdate))))),
                     (''profile'', profile)]"
    by blast
  have "get (get r ''weather'') ''cloudsHeight'' = JNum height"
    and "get (get r ''weather'') ''weatherAvg'' = JStr avg"
    and "get (get r ''weather'') ''feel'' = fl"
    and "js_in ''epoch'' (get r ''weather'') = Inr False"
    by (simp_all add: r update_conv' dom_update delete_notin_dom)
  with h v a f show ?thesis by simp
qed


section \<open>The sample station at work\<close>

lemma complete_sample: "complete (sample t d b h rr) sampleUpdate sampleProfile"
  by (simp add: complete_def sample_def sampleUpdate_def sampleProfile_def)

lemma accepted_sample:
  "accepted E (sample t d b h rr) sampleUpdate sampleProfile =
     (- 40 < t \<and> - 40 < d \<and> 0 \<le> b \<and> 0 \<le> rr \<and> 0 \<le> h \<and> h \<le> 100)"
proof -
  have c: "cloudsHeight E (sample t d b h rr) =
             Inr (if - 40 < t \<and> - 40 < d
                  then num_max (Fin 0) (num_mul (binary64 124.69) (binary64 (t - d)))
                  else Fin (- 1))"
    by (rule cloudsHeight_numbers) (simp_all add: sample_def)
  have v: "invalidData E (sample t d b h rr) x =
             Inr (b < 0 \<or> rr < 0 \<or> num_lt x (Fin 0) \<or> h < 0 \<or> 100 < h)" for x
    by (simp add: invalidData_def orElse_def js_lt_def js_gt_def num_gt_def sample_def)
  have e: "converts E (get (sample t d b h rr) ''epoch'')"
    by (simp add: converts_def sample_def)
  have u: "converts E (get sampleUpdate ''update'')"
    by (simp add: converts_def sampleUpdate_def)
  show ?thesis
    by (auto simp: accepted_def complete_sample e u c v thenE_def num_max_not_negative)
qed




lemma d1234_valid: "''d1234'' \<noteq> [] \<and> \<not> tenDigits ''d1234''"
  by (simp add: tenDigits_def)

section \<open>The derived indicators\<close>

text \<open>
  C2, as the program has it. For a sample whose temperature \<open>t\<close> and dew point \<open>d\<close> are
  numbers, the height of the cloud base is \<open>max(0, 124.69 * (t - d))\<close>, the product and
  the difference rounded to binary64, when both are above \<open>-40\<close>, and \<open>-1\<close> otherwise;
  the same holds of the numbers the host converts them to when they are not numbers.
  A sample that passed the marker test and whose five readings convert to numbers is
  refused with the error \<open>Invalid data\<close>, returned as a value, whenever its temperature
  or dew point is at most \<open>-40\<close>, its pressure or rain rate is negative, or its humidity
  is below 0 or above 100. And whatever the payloads, such a sample gets an error as a
  value: never a report.
\<close>

theorem clouds_height_and_invalid_data:
  "(get data ''temp'' = JNum (Fin t) \<and> get data ''dew'' = JNum (Fin d) \<longrightarrow>
      cloudsHeight E data =
        Inr (if - 40 < t \<and> - 40 < d
             then num_max (Fin 0) (num_mul (binary64 124.69) (binary64 (t - d)))
             else Fin (- 1))) \<and>
   (convert E (get data ''temp'') = Inr T \<and> convert E (get data ''dew'') = Inr D \<longrightarrow>
      cloudsHeight E data =
        Inr (if num_gt T (Fin (- 40)) \<and> num_gt D (Fin (- 40))
             then num_max (Fin 0) (num_mul (binary64 124.69) (num_sub T D))
             else Fin (- 1))) \<and>
   (id' \<noteq> [] \<and> \<not> tenDigits id' \<and> fetched E id' w data lastUpdate profile w' \<and>
    complete data lastUpdate profile \<and>
    list_all (\<lambda>k. converts E (get data k)) readings \<and> outOfRange E data \<longrightarrow>
      fetchWeather E id' w = (Inr (errorObj (Error ''Invalid data'')), w')) \<and>
   (fetched E id' w data lastUpdate profile w' \<and> outOfRange E data \<longrightarrow>
      (\<exists>e w''. fetchWeather E id' w = (Inr (errorObj e), w'')))"
proof (intro conjI impI)
  assume "get data ''temp'' = JNum (Fin t) \<and> get data ''dew'' = JNum (Fin d)"
  then show "cloudsHeight E data =
      Inr (if - 40 < t \<and> - 40 < d
           then num_max (Fin 0) (num_mul (binary64 124.69) (binary64 (t - d)))
           else Fin (- 1))"
    using cloudsHeight_numbers by blast
next
  assume "convert E (get data ''temp'') = Inr T \<and> convert E (get data ''dew'') = Inr D"
  then show "cloudsHeight E data =
      Inr (if num_gt T (Fin (- 40)) \<and> num_gt D (Fin (- 40))
           then num_max (Fin 0) (num_mul (binary64 124.69) (num_sub T D))
           else Fin (- 1))"
    using cloudsHeight_converted by blast
next
  assume a: "id' \<noteq> [] \<and> \<not> tenDigits id' \<and> fetched E id' w data lastUpdate profile w' \<and>
    complete data lastUpdate profile \<and>
    list_all (\<lambda>k. converts E (get data k)) readings \<and> outOfRange E data"
  then have "thenE (cloudsHeight E data) (invalidData E data) = Inr True"
    using refused by blast
  with a have "buildReport E data lastUpdate profile = Inl (Error ''Invalid data'')"
    using buildReport_invalid by blast
  with a fetchWeather_run [of id' E w data lastUpdate profile w']
  show "fetchWeather E id' w = (Inr (errorObj (Error ''Invalid data'')), w')" by simp
next
  assume a: "fetched E id' w data lastUpdate profile w' \<and> outOfRange E data"
  show "\<exists>e w''. fetchWeather E id' w = (Inr (errorObj e), w'')"
  proof (cases "id' = [] \<or> tenDigits id'")
    case True
    then have "fetchWeather E id' w = (Inr (errorObj (Error ''invalid ID'')), w)"
      by (auto simp: fetchWeather_def tryCatch_def throw_def ret_def)
    then show ?thesis by blast
  next
    case False
    from a outOfRange_no_report obtain e where
      "buildReport E data lastUpdate profile = Inl e" by blast
    with a False fetchWeather_run [of id' E w data lastUpdate profile w']
    show ?thesis by auto
  qed
qed

theorem clouds_height_and_invalid_data_witness:
  "get (sample (- 45) (- 50) 1012 60 0) ''temp'' = JNum (Fin (- 45)) \<and>
   get (sample (- 45) (- 50) 1012 60 0) ''dew'' = JNum (Fin (- 50)) \<and>
   cloudsHeight (station (sample (- 45) (- 50) 1012 60 0) sampleUpdate sampleProfile)
     (sample (- 45) (- 50) 1012 60 0) = Inr (Fin (- 1)) \<and>
   ''d1234'' \<noteq> [] \<and> \<not> tenDigits ''d1234'' \<and>
   fetched (station (sample (- 45) (- 50) 1012 60 0) sampleUpdate sampleProfile) ''d1234'' fresh
     (sample (- 45) (- 50) 1012 60 0) sampleUpdate sampleProfile
     (afterFetches ''d1234'' fresh) \<and>
   complete (sample (- 45) (- 50) 1012 60 0) sampleUpdate sampleProfile \<and>
   list_all (\<lambda>k. converts (station (sample (- 45) (- 50) 1012 60 0) sampleUpdate sampleProfile)
                (get (sample (- 45) (- 50) 1012 60 0) k)) readings \<and>
   outOfRange (station (sample (- 45) (- 50) 1012 60 0) sampleUpdate sampleProfile)
     (sample (- 45) (- 50) 1012 60 0) \<and>
   fetchWeather (station (sample (- 45) (- 50) 1012 60 0) sampleUpdate sampleProfile)
     ''d1234'' fresh
     = (Inr (errorObj (Error ''Invalid data'')), afterFetches ''d1234'' fresh) \<and>
   get (sample 18 11 1012 120 0) ''temp'' = JNum (Fin 18) \<and>
   get (sample 18 11 1012 120 0) ''dew'' = JNum (Fin 11) \<and>
   cloudsHeight (station (sample 18 11 1012 120 0) sampleUpdate sampleProfile)
     (sample 18 11 1012 120 0) = Inr (Fin (479843367035863 / 549755813888)) \<and>
   list_all (\<lambda>k. converts (station (sample 18 11 1012 120 0) sampleUpdate sampleProfile)
                (get (sample 18 11 1012 120 0) k)) readings \<and>
   outOfRange (station (sample 18 11 1012 120 0) sampleUpdate sampleProfile)
     (sample 18 11 1012 120 0) \<and>
   fetchWeather (station (sample 18 11 1012 120 0) sampleUpdate sampleProfile)
     ''d1234'' fresh
     = (Inr (errorObj (Error ''Invalid data'')), afterFetches ''d1234'' fresh)"
proof -
  let ?cold = "sample (- 45) (- 50) 1012 60 0"
  let ?damp = "sample 18 11 1012 120 0"
  let ?E = "station ?cold sampleUpdate sampleProfile"
  let ?F = "station ?damp sampleUpdate sampleProfile"
  have c1: "get ?cold ''temp'' = JNum (Fin (- 45))" and c2: "get ?cold ''dew'' = JNum (Fin (- 50))"
    by (simp_all add: sample_def)
  have c3: "list_all (\<lambda>k. converts ?E (get ?cold k)) readings"
    by (simp add: readings_def converts_def sample_def)
  have c4: "outOfRange ?E ?cold"
    by (simp add: outOfRange_def toNumber_def num_le_def sample_def)
  have d1: "get ?damp ''temp'' = JNum (Fin 18)" and d2: "get ?damp ''dew'' = JNum (Fin 11)"
    by (simp_all add: sample_def)
  have d3: "list_all (\<lambda>k. converts ?F (get ?damp k)) readings"
    by (simp add: readings_def converts_def sample_def)
  have d4: "outOfRange ?F ?damp"
    by (simp add: outOfRange_def toNumber_def num_le_def num_gt_def sample_def)
  have d5: "num_max (Fin 0) (num_mul (binary64 124.69) (binary64 (18 - 11))) =
              Fin (479843367035863 / 549755813888)"
    by (simp add: binary64_eval)
  note f = fetched_station complete_sample d1234_valid
  from clouds_height_and_invalid_data
         [of ?cold "- 45" "- 50" ?E _ _ "''d1234''" fresh sampleUpdate sampleProfile
             "afterFetches ''d1234'' fresh"]
       clouds_height_and_invalid_data
         [of ?damp 18 11 ?F _ _ "''d1234''" fresh sampleUpdate sampleProfile
             "afterFetches ''d1234'' fresh"]
       c1 c2 c3 c4 d1 d2 d3 d4 d5 f
  show ?thesis by simp
qed

text \<open>
  The claim as it was written, for every values payload, fails where a reading does not
  convert: at 50 degrees below zero with a pressure that is an object with an own
  \<open>toString\<close>, the test \<open>data.bar < 0\<close> of line 30 throws and \<open>fetchWeather\<close> returns that
  \<open>TypeError\<close>, not \<open>Invalid data\<close>.
\<close>

theorem clouds_height_and_invalid_data_counterexample:
  "fetched (station oddSample sampleUpdate sampleProfile) ''d1234'' fresh
     oddSample sampleUpdate sampleProfile (afterFetches ''d1234'' fresh) \<and>
   complete oddSample sampleUpdate sampleProfile \<and>
   get oddSample ''temp'' = JNum (Fin (- 50)) \<and>
   outOfRange (station oddSample sampleUpdate sampleProfile) oddSample \<and>
   fetchWeather (station oddSample sampleUpdate sampleProfile) ''d1234'' fresh
     = (Inr (errorObj (TypeError ''Cannot convert object to primitive value'')),
        afterFetches ''d1234'' fresh) \<and>
   fetchWeather (station oddSample sampleUpdate sampleProfile) ''d1234'' fresh
     \<noteq> (Inr (errorObj (Error ''Invalid data'')), afterFetches ''d1234'' fresh)"
proof -
  let ?E = "station oddSample sampleUpdate sampleProfile"
  have f: "fetched ?E ''d1234'' fresh oddSample sampleUpdate sampleProfile
             (afterFetches ''d1234'' fresh)"
    by (rule fetched_station)
  have c: "complete oddSample sampleUpdate sampleProfile"
    by (simp add: complete_def oddSample_def sampleUpdate_def sampleProfile_def)
  have t: "get oddSample ''temp'' = JNum (Fin (- 50))"
    by (simp add: oddSample_def)
  have o: "outOfRange ?E oddSample"
    by (simp add: outOfRange_def toNumber_def num_le_def oddSample_def)
  have h: "cloudsHeight ?E oddSample = Inr (Fin (- 1))"
    by (rule trans [OF cloudsHeight_numbers [of _ "- 50" "- 55"]])
       (simp_all add: oddSample_def)
  have b: "buildReport ?E oddSample sampleUpdate sampleProfile =
             Inl (TypeError ''Cannot convert object to primitive value'')"
    by (simp add: buildReport_def h thenE_def)
       (simp add: oddSample_def sampleUpdate_def sampleProfile_def throwIf_def orElse_def
          notE_def invalidData_def js_lt_def)
  have "fetchWeather ?E ''d1234'' fresh =
          (Inr (errorObj (TypeError ''Cannot convert object to primitive value'')),
           afterFetches ''d1234'' fresh)"
    using fetchWeather_run [OF _ _ f] b by (simp add: tenDigits_def)
  with f c t o show ?thesis by (simp add: errorObj_def)
qed

text \<open>
  C3. For a sample that is accepted and whose rain rate \<open>rr\<close> and pressure \<open>b\<close> are
  numbers, \<open>fetchWeather\<close> returns a report and the rain rate is zero or positive. When
  it is zero the label is \<open>cloud\<close>, \<open>change\<close>, \<open>few\<close> or \<open>clear\<close> by the pressure (below
  1005, 1010, 1015, or not), followed by \<open>-fog\<close> exactly when the height of the cloud
  base, the one the report shows, is below 150. When it is positive the label is
  \<open>light\<close>, \<open>moderate\<close> or \<open>heavy\<close> by the rain rate (below 2, below 15, or not), with no
  suffix.
\<close>

theorem condition_label:
  assumes "id' \<noteq> []" and "\<not> tenDigits id'"
    and "fetched E id' w data lastUpdate profile w'"
    and "accepted E data lastUpdate profile"
    and "get data ''rainrate'' = JNum (Fin rr)"
    and "get data ''bar'' = JNum (Fin b)"
  shows "\<exists>r h. fetchWeather E id' w = (Inr r, w') \<and>
           cloudsHeight E data = Inr h \<and>
           get (get r ''weather'') ''cloudsHeight'' = JNum h \<and>
           (rr = 0 \<or> 0 < rr) \<and>
           (rr = 0 \<longrightarrow>
              get (get r ''weather'') ''weatherAvg'' =
                JStr ((if b < 1005 then ''cloud''
                       else if b < 1010 then ''change''
                       else if b < 1015 then ''few''
                       else ''clear'') @
                      (if num_lt h (Fin 150) then ''-fog'' else ''''))) \<and>
           (0 < rr \<longrightarrow>
              get (get r ''weather'') ''weatherAvg'' =
                JStr (if rr < 2 then ''light''
                      else if rr < 15 then ''moderate''
                      else ''heavy''))"
proof -
  from accepted_run [OF assms(1-4)]
  obtain r where r: "buildReport E data lastUpdate profile = Inr r"
    and run: "fetchWeather E id' w = (Inr r, w')" by blast
  from buildReport_weather [OF r] obtain h avg where
    h: "cloudsHeight E data = Inr h" and v: "invalidData E data h = Inr False"
    and a: "weatherAvg E data h = Inr avg"
    and gh: "get (get r ''weather'') ''cloudsHeight'' = JNum h"
    and ga: "get (get r ''weather'') ''weatherAvg'' = JStr avg"
    by blast
  have sign: "rr = 0 \<or> 0 < rr"
    using v assms(5) unfolding invalidData_False by auto
  have dry: "rr = 0 \<Longrightarrow> weatherAvg E data h =
               Inr ((if b < 1005 then ''cloud''
                     else if b < 1010 then ''change''
                     else if b < 1015 then ''few''
                     else ''clear'') @
                    (if num_lt h (Fin 150) then ''-fog'' else ''''))"
    using assms(5,6) by (simp add: weatherAvg_def thenE_def js_lt_def)
  have wet: "0 < rr \<Longrightarrow> weatherAvg E data h =
               Inr (if rr < 2 then ''light'' else if rr < 15 then ''moderate'' else ''heavy'')"
    using assms(5) by (simp add: weatherAvg_def thenE_def js_lt_def)
  from run h gh ga a sign dry wet show ?thesis by auto
qed

theorem condition_label_witness:
  "''d1234'' \<noteq> [] \<and> \<not> tenDigits ''d1234'' \<and>
   fetched (station (sample 18 17 1012 60 0) sampleUpdate sampleProfile) ''d1234'' fresh
     (sample 18 17 1012 60 0) sampleUpdate sampleProfile (afterFetches ''d1234'' fresh) \<and>
   accepted (station (sample 18 17 1012 60 0) sampleUpdate sampleProfile)
     (sample 18 17 1012 60 0) sampleUpdate sampleProfile \<and>
   get (sample 18 17 1012 60 0) ''rainrate'' = JNum (Fin 0) \<and>
   get (sample 18 17 1012 60 0) ''bar'' = JNum (Fin 1012) \<and>
   (\<exists>r. fetchWeather (station (sample 18 17 1012 60 0) sampleUpdate sampleProfile)
           ''d1234'' fresh = (Inr r, afterFetches ''d1234'' fresh) \<and>
        get (get r ''weather'') ''cloudsHeight'' =
          JNum (Fin (2193569677878231 / 17592186044416)) \<and>
        get (get r ''weather'') ''weatherAvg'' = JStr ''few-fog'') \<and>
   fetched (station (sample 1.202983398829096 0 1012 60 0) sampleUpdate sampleProfile)
     ''d1234'' fresh
     (sample 1.202983398829096 0 1012 60 0) sampleUpdate sampleProfile
     (afterFetches ''d1234'' fresh) \<and>
   accepted (station (sample 1.202983398829096 0 1012 60 0) sampleUpdate sampleProfile)
     (sample 1.202983398829096 0 1012 60 0) sampleUpdate sampleProfile \<and>
   get (sample 1.202983398829096 0 1012 60 0) ''rainrate'' = JNum (Fin 0) \<and>
   get (sample 1.202983398829096 0 1012 60 0) ''bar'' = JNum (Fin 1012) \<and>
   (\<exists>r. fetchWeather (station (sample 1.202983398829096 0 1012 60 0) sampleUpdate sampleProfile)
           ''d1234'' fresh = (Inr r, afterFetches ''d1234'' fresh) \<and>
        get (get r ''weather'') ''cloudsHeight'' = JNum (Fin 150) \<and>
        get (get r ''weather'') ''weatherAvg'' = JStr ''few'') \<and>
   fetched (station (sample 18 12 1012 60 5) sampleUpdate sampleProfile) ''d1234'' fresh
     (sample 18 12 1012 60 5) sampleUpdate sampleProfile (afterFetches ''d1234'' fresh) \<and>
   accepted (station (sample 18 12 1012 60 5) sampleUpdate sampleProfile)
     (sample 18 12 1012 60 5) sampleUpdate sampleProfile \<and>
   get (sample 18 12 1012 60 5) ''rainrate'' = JNum (Fin 5) \<and>
   get (sample 18 12 1012 60 5) ''bar'' = JNum (Fin 1012) \<and>
   (\<exists>r. fetchWeather (station (sample 18 12 1012 60 5) sampleUpdate sampleProfile)
           ''d1234'' fresh = (Inr r, afterFetches ''d1234'' fresh) \<and>
        get (get r ''weather'') ''weatherAvg'' = JStr ''moderate'')"
proof -
  let ?dry = "sample 18 17 1012 60 0"
  let ?edge = "sample 1.202983398829096 0 1012 60 0"
  let ?wet = "sample 18 12 1012 60 5"
  let ?E = "station ?dry sampleUpdate sampleProfile"
  let ?G = "station ?edge sampleUpdate sampleProfile"
  let ?F = "station ?wet sampleUpdate sampleProfile"
  have v1: "''d1234'' \<noteq> []" and v2: "\<not> tenDigits ''d1234''"
    using d1234_valid by simp_all
  have f1: "fetched ?E ''d1234'' fresh ?dry sampleUpdate sampleProfile
              (afterFetches ''d1234'' fresh)"
    by (rule fetched_station)
  have f2: "fetched ?F ''d1234'' fresh ?wet sampleUpdate sampleProfile
              (afterFetches ''d1234'' fresh)"
    by (rule fetched_station)
  have f3: "fetched ?G ''d1234'' fresh ?edge sampleUpdate sampleProfile
              (afterFetches ''d1234'' fresh)"
    by (rule fetched_station)
  have a1: "accepted ?E ?dry sampleUpdate sampleProfile"
    and a2: "accepted ?F ?wet sampleUpdate sampleProfile"
    and a3: "accepted ?G ?edge sampleUpdate sampleProfile"
    by (simp_all add: accepted_sample)
  have g1: "get ?dry ''rainrate'' = JNum (Fin 0)" and g2: "get ?dry ''bar'' = JNum (Fin 1012)"
    and g3: "get ?wet ''rainrate'' = JNum (Fin 5)" and g4: "get ?wet ''bar'' = JNum (Fin 1012)"
    and g5: "get ?edge ''rainrate'' = JNum (Fin 0)" and g6: "get ?edge ''bar'' = JNum (Fin 1012)"
    by (simp_all add: sample_def)
  have h1: "cloudsHeight ?E ?dry = Inr (Fin (2193569677878231 / 17592186044416))"
    by (rule trans [OF cloudsHeight_numbers [of _ 18 17]])
       (simp_all add: sample_def binary64_eval)
  have h3: "cloudsHeight ?G ?edge = Inr (Fin 150)"
    by (rule trans [OF cloudsHeight_numbers [of _ "1.202983398829096" 0]])
       (simp_all add: sample_def binary64_eval)
  from condition_label [OF v1 v2 f1 a1 g1 g2] h1
  have dry: "\<exists>r. fetchWeather ?E ''d1234'' fresh = (Inr r, afterFetches ''d1234'' fresh) \<and>
                get (get r ''weather'') ''cloudsHeight'' =
                  JNum (Fin (2193569677878231 / 17592186044416)) \<and>
                get (get r ''weather'') ''weatherAvg'' = JStr ''few-fog''"
    by auto
  from condition_label [OF v1 v2 f3 a3 g5 g6] h3
  have edge: "\<exists>r. fetchWeather ?G ''d1234'' fresh = (Inr r, afterFetches ''d1234'' fresh) \<and>
                get (get r ''weather'') ''cloudsHeight'' = JNum (Fin 150) \<and>
                get (get r ''weather'') ''weatherAvg'' = JStr ''few''"
    by auto
  from condition_label [OF v1 v2 f2 a2 g3 g4]
  have wet: "\<exists>r. fetchWeather ?F ''d1234'' fresh = (Inr r, afterFetches ''d1234'' fresh) \<and>
                get (get r ''weather'') ''weatherAvg'' = JStr ''moderate''"
    by auto
  from v1 v2 f1 f2 f3 a1 a2 a3 g1 g2 g3 g4 g5 g6 dry edge wet show ?thesis by blast
qed

text \<open>
  C9. For a sample that is accepted and whose temperature \<open>t\<close> is a number,
  \<open>fetchWeather\<close> returns a report whose \<open>feel\<close> is \<open>chillFn\<close> of the temperature and the
  wind speed when \<open>t < 10\<close>, \<open>heatFn\<close> of the temperature and the humidity when
  \<open>t > 26\<close>, and the temperature itself otherwise: 18 when the temperature is 18.
\<close>

theorem feel_by_range:
  assumes "id' \<noteq> []" and "\<not> tenDigits id'"
    and "fetched E id' w data lastUpdate profile w'"
    and "accepted E data lastUpdate profile"
    and "get data ''temp'' = JNum (Fin t)"
  shows "\<exists>r. fetchWeather E id' w = (Inr r, w') \<and>
           get (get r ''weather'') ''feel'' =
             (if t < 10 then chillFn E (JNum (Fin t)) (get data ''wspd'')
              else if 26 < t then heatFn E (JNum (Fin t)) (get data ''hum'')
              else JNum (Fin t)) \<and>
           (t = 18 \<longrightarrow> get (get r ''weather'') ''feel'' = JNum (Fin 18))"
proof -
  from accepted_run [OF assms(1-4)]
  obtain r where r: "buildReport E data lastUpdate profile = Inr r"
    and run: "fetchWeather E id' w = (Inr r, w')" by blast
  have "feel E data =
          Inr (if t < 10 then chillFn E (JNum (Fin t)) (get data ''wspd'')
               else if 26 < t then heatFn E (JNum (Fin t)) (get data ''hum'')
               else JNum (Fin t))"
    using assms(5) by (simp add: feel_def thenE_def js_lt_def js_gt_def num_gt_def)
  with buildReport_weather [OF r] run show ?thesis by auto
qed

theorem feel_by_range_witness:
  "''d1234'' \<noteq> [] \<and> \<not> tenDigits ''d1234'' \<and>
   fetched (station (sample 18 12 1012 60 0) sampleUpdate sampleProfile) ''d1234'' fresh
     (sample 18 12 1012 60 0) sampleUpdate sampleProfile (afterFetches ''d1234'' fresh) \<and>
   accepted (station (sample 18 12 1012 60 0) sampleUpdate sampleProfile)
     (sample 18 12 1012 60 0) sampleUpdate sampleProfile \<and>
   get (sample 18 12 1012 60 0) ''temp'' = JNum (Fin 18) \<and>
   (\<exists>r. fetchWeather (station (sample 18 12 1012 60 0) sampleUpdate sampleProfile)
           ''d1234'' fresh = (Inr r, afterFetches ''d1234'' fresh) \<and>
        get (get r ''weather'') ''feel'' = JNum (Fin 18)) \<and>
   fetched (station (sample 5 1 1012 60 0) sampleUpdate sampleProfile) ''d1234'' fresh
     (sample 5 1 1012 60 0) sampleUpdate sampleProfile (afterFetches ''d1234'' fresh) \<and>
   accepted (station (sample 5 1 1012 60 0) sampleUpdate sampleProfile)
     (sample 5 1 1012 60 0) sampleUpdate sampleProfile \<and>
   get (sample 5 1 1012 60 0) ''temp'' = JNum (Fin 5) \<and>
   (\<exists>r. fetchWeather (station (sample 5 1 1012 60 0) sampleUpdate sampleProfile)
           ''d1234'' fresh = (Inr r, afterFetches ''d1234'' fresh) \<and>
        get (get r ''weather'') ''feel'' = JNum (Fin 3))"
proof -
  let ?mild = "sample 18 12 1012 60 0"
  let ?cool = "sample 5 1 1012 60 0"
  let ?E = "station ?mild sampleUpdate sampleProfile"
  let ?F = "station ?cool sampleUpdate sampleProfile"
  have v1: "''d1234'' \<noteq> []" and v2: "\<not> tenDigits ''d1234''"
    using d1234_valid by simp_all
  have f1: "fetched ?E ''d1234'' fresh ?mild sampleUpdate sampleProfile
              (afterFetches ''d1234'' fresh)"
    by (rule fetched_station)
  have f2: "fetched ?F ''d1234'' fresh ?cool sampleUpdate sampleProfile
              (afterFetches ''d1234'' fresh)"
    by (rule fetched_station)
  have a1: "accepted ?E ?mild sampleUpdate sampleProfile"
    and a2: "accepted ?F ?cool sampleUpdate sampleProfile"
    by (simp_all add: accepted_sample)
  have g1: "get ?mild ''temp'' = JNum (Fin 18)" and g2: "get ?cool ''temp'' = JNum (Fin 5)"
    by (simp_all add: sample_def)
  from feel_by_range [OF v1 v2 f1 a1 g1]
  have mild: "\<exists>r. fetchWeather ?E ''d1234'' fresh = (Inr r, afterFetches ''d1234'' fresh) \<and>
                 get (get r ''weather'') ''feel'' = JNum (Fin 18)"
    by simp
  from feel_by_range [OF v1 v2 f2 a2 g2]
  have cool: "\<exists>r. fetchWeather ?F ''d1234'' fresh = (Inr r, afterFetches ''d1234'' fresh) \<and>
                 get (get r ''weather'') ''feel'' = JNum (Fin 3)"
    by (simp add: station_def binary64_eval)
  from v1 v2 f1 f2 a1 a2 g1 g2 mild cool show ?thesis by blast
qed

section \<open>The assembled report\<close>



text \<open>
  C5, as the program has it. For an \<open>id\<close> that passes the test of line 7 and three
  payloads that are objects (values on which \<open>in\<close> does not throw), a marker absent from
  any of them makes \<open>fetchWeather\<close> return the error \<open>Failed to fetch\<close> as a value. And
  for every \<open>id\<close> and any three payloads, objects or not, an absent marker makes it
  return an error as a value: never a report.
\<close>

theorem missing_marker:
  "(id' \<noteq> [] \<and> \<not> tenDigits id' \<and> fetched E id' w data lastUpdate profile w' \<and>
    objectLike data \<and> objectLike lastUpdate \<and> objectLike profile \<and>
    \<not> complete data lastUpdate profile \<longrightarrow>
      fetchWeather E id' w = (Inr (errorObj (Error ''Failed to fetch'')), w')) \<and>
   (fetched E id' w data lastUpdate profile w' \<and> \<not> complete data lastUpdate profile \<longrightarrow>
      (\<exists>e w''. fetchWeather E id' w = (Inr (errorObj e), w'')))"
proof (intro conjI impI)
  assume a: "id' \<noteq> [] \<and> \<not> tenDigits id' \<and> fetched E id' w data lastUpdate profile w' \<and>
    objectLike data \<and> objectLike lastUpdate \<and> objectLike profile \<and>
    \<not> complete data lastUpdate profile"
  then have "buildReport E data lastUpdate profile = Inl (Error ''Failed to fetch'')"
    using buildReport_missing by blast
  with a fetchWeather_run [of id' E w data lastUpdate profile w']
  show "fetchWeather E id' w = (Inr (errorObj (Error ''Failed to fetch'')), w')" by simp
next
  assume a: "fetched E id' w data lastUpdate profile w' \<and> \<not> complete data lastUpdate profile"
  show "\<exists>e w''. fetchWeather E id' w = (Inr (errorObj e), w'')"
  proof (cases "id' = [] \<or> tenDigits id'")
    case True
    then have "fetchWeather E id' w = (Inr (errorObj (Error ''invalid ID'')), w)"
      by (auto simp: fetchWeather_def tryCatch_def throw_def ret_def)
    then show ?thesis by blast
  next
    case False
    from a buildReport_incomplete obtain e where
      "buildReport E data lastUpdate profile = Inl e" by blast
    with a False fetchWeather_run [of id' E w data lastUpdate profile w']
    show ?thesis by auto
  qed
qed

theorem missing_marker_witness:
  "''d1234'' \<noteq> [] \<and> \<not> tenDigits ''d1234'' \<and>
   fetched (station (sample 18 12 1012 60 0) (JObj []) sampleProfile) ''d1234'' fresh
     (sample 18 12 1012 60 0) (JObj []) sampleProfile (afterFetches ''d1234'' fresh) \<and>
   objectLike (sample 18 12 1012 60 0) \<and> objectLike (JObj []) \<and> objectLike sampleProfile \<and>
   \<not> complete (sample 18 12 1012 60 0) (JObj []) sampleProfile \<and>
   fetchWeather (station (sample 18 12 1012 60 0) (JObj []) sampleProfile) ''d1234'' fresh =
     (Inr (errorObj (Error ''Failed to fetch'')), afterFetches ''d1234'' fresh)"
proof -
  let ?E = "station (sample 18 12 1012 60 0) (JObj []) sampleProfile"
  have f: "fetched ?E ''d1234'' fresh (sample 18 12 1012 60 0) (JObj []) sampleProfile
             (afterFetches ''d1234'' fresh)"
    by (rule fetched_station)
  have o: "objectLike (sample 18 12 1012 60 0) \<and> objectLike (JObj []) \<and>
           objectLike sampleProfile"
    by (simp add: sample_def sampleProfile_def)
  have c: "\<not> complete (sample 18 12 1012 60 0) (JObj []) sampleProfile"
    by (simp add: complete_def)
  from missing_marker [of "''d1234''" ?E fresh "sample 18 12 1012 60 0" "JObj []"
         sampleProfile "afterFetches ''d1234'' fresh"] d1234_valid f o c
  show ?thesis by simp
qed

text \<open>
  The claim as it was written fails where a payload is not an object: the last-update
  endpoint answers with a JSON string, the marker \<open>update\<close> is absent from it, and what
  \<open>fetchWeather\<close> returns is the \<open>TypeError\<close> of the \<open>in\<close> operator, not
  \<open>Failed to fetch\<close>.
\<close>

theorem missing_marker_counterexample:
  "fetched (station (sample 18 12 1012 60 0) (JStr ''unknown device'') sampleProfile)
     ''d1234'' fresh
     (sample 18 12 1012 60 0) (JStr ''unknown device'') sampleProfile
     (afterFetches ''d1234'' fresh) \<and>
   js_in ''update'' (JStr ''unknown device'') \<noteq> Inr True \<and>
   fetchWeather (station (sample 18 12 1012 60 0) (JStr ''unknown device'') sampleProfile)
     ''d1234'' fresh
     = (Inr (errorObj
               (TypeError ''Cannot use in operator: right-hand side is not an object'')),
        afterFetches ''d1234'' fresh) \<and>
   fetchWeather (station (sample 18 12 1012 60 0) (JStr ''unknown device'') sampleProfile)
     ''d1234'' fresh
     \<noteq> (Inr (errorObj (Error ''Failed to fetch'')), afterFetches ''d1234'' fresh)"
proof -
  let ?E = "station (sample 18 12 1012 60 0) (JStr ''unknown device'') sampleProfile"
  have f: "fetched ?E ''d1234'' fresh (sample 18 12 1012 60 0) (JStr ''unknown device'')
             sampleProfile (afterFetches ''d1234'' fresh)"
    by (rule fetched_station)
  have b: "buildReport ?E (sample 18 12 1012 60 0) (JStr ''unknown device'') sampleProfile =
             Inl (TypeError ''Cannot use in operator: right-hand side is not an object'')"
    by (simp add: buildReport_def sample_def thenE_def throwIf_def orElse_def notE_def)
  have "fetchWeather ?E ''d1234'' fresh =
          (Inr (errorObj
                  (TypeError ''Cannot use in operator: right-hand side is not an object'')),
           afterFetches ''d1234'' fresh)"
    using fetchWeather_run [OF _ _ f] b by (simp add: tenDigits_def)
  with f show ?thesis by (simp add: errorObj_def)
qed

section \<open>Signing in\<close>




lemma login_rethrows:
  "signin E w mail password = Inl e \<Longrightarrow>
     login E mail password storeCredentials w =
       (Inl e, w\<lparr>requests := requests w @ [SignIn mail password]\<rparr>)"
  by (simp add: login_def Let_def)

lemma login_status_not_302:
  "signin E w mail password = Inr (status, setCookie) \<Longrightarrow> status \<noteq> 302 \<Longrightarrow>
     login E mail password storeCredentials w =
       (Inr False, w\<lparr>requests := requests w @ [SignIn mail password]\<rparr>)"
  by (simp add: login_def Let_def)

text \<open>
  C1. The queries other than \<open>login\<close> return whatever happens (the lemmas of the
  section on the error boundary). \<open>login\<close> does not: on a host whose network is down the
  \<open>fetch\<close> of line 154 throws, no \<open>try\<close> encloses it, and \<open>login\<close> throws the same error
  where the claim has it return \<open>false\<close>.
\<close>

theorem login_raises_offline:
  "login offline ''user@example.org'' ''secret'' None fresh =
     (Inl (TypeError ''fetch failed''),
      fresh\<lparr>requests := [SignIn ''user@example.org'' ''secret'']\<rparr>)"
  by (simp add: login_def offline_def fresh_def Let_def)

section \<open>Failing fast\<close>

text \<open>
  C6. For an \<open>id\<close> that is empty or is exactly ten digits, \<open>fetchWeather\<close> returns the
  error \<open>invalid ID\<close> as a value, and the world it leaves is the world it found: no
  request has been issued.
\<close>

theorem fetchWeather_invalid_id:
  "id' = [] \<or> tenDigits id' \<Longrightarrow>
     fetchWeather E id' w = (Inr (errorObj (Error ''invalid ID'')), w)"
  by (auto simp: fetchWeather_def tryCatch_def throw_def ret_def)

theorem fetchWeather_invalid_id_witness:
  "(''1234567890'' = [] \<or> tenDigits ''1234567890'') \<and>
   fetchWeather (station JNull JNull JNull) ''1234567890'' fresh =
     (Inr (errorObj (Error ''invalid ID'')), fresh)"
proof -
  have h: "''1234567890'' = [] \<or> tenDigits ''1234567890''"
    by (simp add: tenDigits_def)
  show ?thesis
    using h fetchWeather_invalid_id [OF h, of "station JNull JNull JNull" fresh] by simp
qed

text \<open>
  C7. With no cookie in the session store, \<open>getStationStatus\<close> and \<open>getOwn\<close> return the
  error \<open>Session required!\<close> as a value and leave the world as it was: no request has
  been issued.
\<close>

theorem session_required:
  "cookies (session w) = [] \<Longrightarrow>
     getStationStatus E id' w = (Inr (errorObj (Error ''Session required!'')), w) \<and>
     getOwn E w = (Inr (errorObj (Error ''Session required!'')), w)"
  by (simp add: getStationStatus_def getOwn_def tryCatch_def andThen_def getCookie_def
        throw_def ret_def)

theorem session_required_witness:
  "cookies (session fresh) = [] \<and>
   getStationStatus offline ''d1234'' fresh =
     (Inr (errorObj (Error ''Session required!'')), fresh) \<and>
   getOwn offline fresh = (Inr (errorObj (Error ''Session required!'')), fresh)"
proof -
  have h: "cookies (session fresh) = []" by (simp add: fresh_def)
  show ?thesis using h session_required [OF h, of offline "''d1234''"] by simp
qed

text \<open>
  C8, as the program has it. For every country code, \<open>getTop\<close> of kind \<open>popular\<close> without
  a period returns the error \<open>Period required for popular ranking\<close> as a value and
  leaves the world as it was: no request has been issued and nothing has been written
  to the console. Line 118 has by then built the address of the ranking and the country;
  what the period test of line 120 prevents is its completion with the period, and
  every use of it.
\<close>

theorem getTop_period_required:
  "getTop E Popular countryCode None w =
     (Inr (errorObj (Error ''Period required for popular ranking'')), w) \<and>
   getTopUrl Popular countryCode None =
     (''https://app.weathercloud.net/page/popular/country/'' @ countryCode,
      Inl (Error ''Period required for popular ranking''))"
  by (simp add: getTop_def getTopUrl_def tryCatch_def andThen_def lift_def ret_def)

theorem getTop_period_required_witness:
  "getTop offline Popular ''FR'' None fresh =
     (Inr (errorObj (Error ''Period required for popular ranking'')), fresh) \<and>
   getTopUrl Popular ''FR'' None =
     (''https://app.weathercloud.net/page/popular/country/FR'',
      Inl (Error ''Period required for popular ranking''))"
  using getTop_period_required [of offline "''FR''" fresh] by simp

text \<open>
  The claim as it was written has the error come before any address is built. It does
  not: when line 120 throws, \<open>url\<close> already holds the address that line 118 built.
\<close>

theorem getTop_period_required_counterexample:
  "snd (getTopUrl Popular ''FR'' None) = Inl (Error ''Period required for popular ranking'') \<and>
   fst (getTopUrl Popular ''FR'' None) = ''https://app.weathercloud.net/page/popular/country/FR'' \<and>
   fst (getTopUrl Popular ''FR'' None) \<noteq> []"
  by (simp add: getTopUrl_def)

end
